theory Spec2Isabelle
  imports Complex_Main "HOL-Library.Word" "HOL-Library.Multiset"
begin

section \<open>JavaScript values\<close>

text \<open>
  The handlers of \<^verbatim>\<open>app.js\<close> receive parsed JSON bodies, query strings and path
  segments, and coerce them with the built-in functions \<^verbatim>\<open>String\<close>, \<^verbatim>\<open>Number\<close>,
  \<^verbatim>\<open>Number.isNaN\<close>, \<^verbatim>\<open>!\<close> and \<^verbatim>\<open>String.prototype.trim\<close>. This section models
  those built-ins.

  A JavaScript string is a sequence of code units; it is modelled as a \<^typ>\<open>string\<close>
  whose characters are the code units below 256. A number is modelled by its exact
  value: \<open>NaN\<close>, the two infinities, or a rational (the rounding of IEEE doubles,
  their overflow to infinity and the sign of zero are not modelled).
\<close>

datatype jsnum = NaN | NInf | Fin rat | PInf

datatype jsval =
    JNull
  | JBool bool
  | JNum jsnum
  | JStr string
  | JArr "jsval list"
  | JObj "(string \<times> jsval) list"

text \<open>
  A request body is a parsed JSON object: a finite map from property names to values.
  A property that is absent reads as \<^verbatim>\<open>undefined\<close>, modelled by \<open>None\<close>.
\<close>

type_synonym body = "string \<rightharpoonup> jsval"

subsection \<open>Characters and trimming\<close>

definition code_unit :: "char \<Rightarrow> nat" where
  "code_unit c = of_char c"

text \<open>White space and line terminators of ECMAScript, among the code units below 256.\<close>

definition is_space :: "char \<Rightarrow> bool" where
  "is_space c = (code_unit c \<in> {9, 10, 11, 12, 13, 32, 160})"

definition trim :: "string \<Rightarrow> string" where
  "trim s = rev (dropWhile is_space (rev (dropWhile is_space s)))"

definition is_digit :: "char \<Rightarrow> bool" where
  "is_digit c = (48 \<le> code_unit c \<and> code_unit c \<le> 57)"

definition is_hex :: "char \<Rightarrow> bool" where
  "is_hex c = (is_digit c
     \<or> (97 \<le> code_unit c \<and> code_unit c \<le> 102)
     \<or> (65 \<le> code_unit c \<and> code_unit c \<le> 70))"

definition hex_val :: "char \<Rightarrow> nat" where
  "hex_val c =
     (if is_digit c then code_unit c - 48
      else if 97 \<le> code_unit c \<and> code_unit c \<le> 102 then code_unit c - 87
      else if 65 \<le> code_unit c \<and> code_unit c \<le> 70 then code_unit c - 55
      else 0)"

text \<open>The value of a digit string in a radix, most significant digit first.\<close>

definition radix_val :: "nat \<Rightarrow> string \<Rightarrow> nat" where
  "radix_val b s = foldl (\<lambda>a c. b * a + hex_val c) 0 s"

subsection \<open>String to number\<close>

text \<open>
  \<^verbatim>\<open>Number(s)\<close> on a string follows the grammar \<open>StringNumericLiteral\<close>: surrounding
  white space is dropped; the empty string is 0; \<^verbatim>\<open>Infinity\<close> may carry a sign; a
  hexadecimal, octal or binary literal carries none; a decimal literal has an optional
  sign, digits with an optional fraction (digits on at least one side of the point) and
  an optional exponent. Anything else is \<open>NaN\<close>.
\<close>

definition all_in :: "(char \<Rightarrow> bool) \<Rightarrow> string \<Rightarrow> bool" where
  "all_in P s = (s \<noteq> [] \<and> list_all P s)"

definition prefixed :: "nat \<Rightarrow> (char \<Rightarrow> bool) \<Rightarrow> string \<Rightarrow> jsnum" where
  "prefixed b P ds = (if all_in P ds then Fin (of_nat (radix_val b ds)) else NaN)"

text \<open>The exponent part after \<^verbatim>\<open>e\<close> or \<^verbatim>\<open>E\<close>: an optional sign and at least one digit.\<close>

definition exponent :: "string \<Rightarrow> int option" where
  "exponent s =
     (case s of
        [] \<Rightarrow> None
      | c # r \<Rightarrow>
          if c = CHR ''-'' then (if all_in is_digit r then Some (- int (radix_val 10 r)) else None)
          else if c = CHR ''+'' then (if all_in is_digit r then Some (int (radix_val 10 r)) else None)
          else if all_in is_digit s then Some (int (radix_val 10 s)) else None)"

definition scale :: "rat \<Rightarrow> int \<Rightarrow> rat" where
  "scale m e = (if 0 \<le> e then m * 10 ^ nat e else m / 10 ^ nat (- e))"

text \<open>An unsigned decimal literal.\<close>

definition unsigned_decimal :: "string \<Rightarrow> rat option" where
  "unsigned_decimal s =
     (let ip = takeWhile is_digit s;
          r1 = dropWhile is_digit s;
          dot = (r1 \<noteq> [] \<and> hd r1 = CHR ''.'');
          fp = (if dot then takeWhile is_digit (tl r1) else []);
          r2 = (if dot then dropWhile is_digit (tl r1) else r1);
          m = of_nat (radix_val 10 (ip @ fp)) / 10 ^ length fp
      in if ip = [] \<and> fp = [] then None
         else if r2 = [] then Some m
         else if hd r2 = CHR ''e'' \<or> hd r2 = CHR ''E'' then
           map_option (scale m) (exponent (tl r2))
         else None)"

definition StringToNumber :: "string \<Rightarrow> jsnum" where
  "StringToNumber s =
     (let t = trim s in
      if t = [] then Fin 0
      else if t = ''Infinity'' \<or> t = ''+Infinity'' then PInf
      else if t = ''-Infinity'' then NInf
      else if take 2 t = ''0x'' \<or> take 2 t = ''0X'' then prefixed 16 is_hex (drop 2 t)
      else if take 2 t = ''0o'' \<or> take 2 t = ''0O'' then
        prefixed 8 (\<lambda>c. 48 \<le> code_unit c \<and> code_unit c \<le> 55) (drop 2 t)
      else if take 2 t = ''0b'' \<or> take 2 t = ''0B'' then
        prefixed 2 (\<lambda>c. 48 \<le> code_unit c \<and> code_unit c \<le> 49) (drop 2 t)
      else if hd t = CHR ''-'' then
        (case unsigned_decimal (tl t) of None \<Rightarrow> NaN | Some m \<Rightarrow> Fin (- m))
      else if hd t = CHR ''+'' then
        (case unsigned_decimal (tl t) of None \<Rightarrow> NaN | Some m \<Rightarrow> Fin m)
      else (case unsigned_decimal t of None \<Rightarrow> NaN | Some m \<Rightarrow> Fin m))"

subsection \<open>Coercions of JSON values\<close>

text \<open>
  \<^verbatim>\<open>!v\<close> is true on the falsy values: \<^verbatim>\<open>undefined\<close>, \<^verbatim>\<open>null\<close>, \<^verbatim>\<open>false\<close>, zero, \<open>NaN\<close>
  and the empty string. \<open>truthy\<close> is its negation.
\<close>

fun truthy :: "jsval option \<Rightarrow> bool" where
  "truthy None = False"
| "truthy (Some JNull) = False"
| "truthy (Some (JBool b)) = b"
| "truthy (Some (JNum n)) = (n \<noteq> NaN \<and> n \<noteq> Fin 0)"
| "truthy (Some (JStr s)) = (s \<noteq> [])"
| "truthy (Some (JArr xs)) = True"
| "truthy (Some (JObj kvs)) = True"

fun join :: "string \<Rightarrow> string list \<Rightarrow> string" where
  "join sep [] = []"
| "join sep [x] = x"
| "join sep (x # y # ys) = x @ sep @ join sep (y # ys)"

text \<open>
  \<^verbatim>\<open>String(v)\<close>. The text of a number is produced by the runtime's number formatter,
  which is a parameter \<open>fmt\<close> of the model. An array is the comma-joined text of its
  elements, \<^verbatim>\<open>null\<close> elements giving the empty text. A plain object is
  \<^verbatim>\<open>[object Object]\<close>, unless the JSON gave it an own property \<^verbatim>\<open>toString\<close>: that
  property is not callable, no primitive is found, and the conversion throws a
  \<^verbatim>\<open>TypeError\<close>, which is the result \<open>None\<close>.
\<close>

fun ToString :: "(jsnum \<Rightarrow> string) \<Rightarrow> jsval \<Rightarrow> string option" where
  "ToString fmt JNull = Some ''null''"
| "ToString fmt (JBool b) = Some (if b then ''true'' else ''false'')"
| "ToString fmt (JNum n) = Some (fmt n)"
| "ToString fmt (JStr s) = Some s"
| "ToString fmt (JArr xs) =
     map_option (join '','')
       (those (map (\<lambda>x. if x = JNull then Some [] else ToString fmt x) xs))"
| "ToString fmt (JObj kvs) =
     (if ''toString'' \<in> fst ` set kvs then None else Some ''[object Object]'')"

text \<open>
  \<^verbatim>\<open>Number(v)\<close> on a value that is not \<^verbatim>\<open>undefined\<close>. Arrays and objects are first
  converted to a primitive, which is their text.
\<close>

fun ToNumber :: "(jsnum \<Rightarrow> string) \<Rightarrow> jsval \<Rightarrow> jsnum option" where
  "ToNumber fmt JNull = Some (Fin 0)"
| "ToNumber fmt (JBool b) = Some (Fin (if b then 1 else 0))"
| "ToNumber fmt (JNum n) = Some n"
| "ToNumber fmt (JStr s) = Some (StringToNumber s)"
| "ToNumber fmt (JArr xs) = map_option StringToNumber (ToString fmt (JArr xs))"
| "ToNumber fmt (JObj kvs) = map_option StringToNumber (ToString fmt (JObj kvs))"

text \<open>\<^verbatim>\<open>String(v).trim()\<close>\<close>

definition trimmed :: "(jsnum \<Rightarrow> string) \<Rightarrow> jsval \<Rightarrow> string option" where
  "trimmed fmt v = map_option trim (ToString fmt v)"

text \<open>
  A conversion guarded by \<^verbatim>\<open>v !== undefined\<close>: nothing is computed for an absent
  property (\<open>Some None\<close>); \<open>None\<close> is the conversion throwing.
\<close>

fun if_defined :: "(jsval \<Rightarrow> 'a option) \<Rightarrow> jsval option \<Rightarrow> 'a option option" where
  "if_defined g None = Some None"
| "if_defined g (Some v) = map_option Some (g v)"

text \<open>\<^verbatim>\<open>s.split(",")\<close>: the pieces between commas; the empty string has one empty piece.\<close>

fun split_comma :: "string \<Rightarrow> string list" where
  "split_comma [] = [[]]"
| "split_comma (c # cs) =
     (if c = CHR '','' then [] # split_comma cs
      else (case split_comma cs of [] \<Rightarrow> [[c]] | p # ps \<Rightarrow> (c # p) # ps))"

section \<open>The document store\<close>

text \<open>
  The MongoDB driver is outside the repository; this section models the part of it the
  handlers use. An \<^verbatim>\<open>ObjectId\<close> is 12 bytes. \<^verbatim>\<open>ObjectId.isValid\<close> accepts a string of
  24 hexadecimal digits, \<^verbatim>\<open>new ObjectId(s)\<close> reads them (in either case of the
  letters), and \<^verbatim>\<open>toHexString\<close>, which JSON serialisation uses, writes them in lower
  case. The handlers call \<^verbatim>\<open>new ObjectId(s)\<close> only after \<^verbatim>\<open>ObjectId.isValid(s)\<close>, so
  \<open>ObjectId_new\<close> is only ever applied to a valid string.
\<close>

type_synonym objectid = "96 word"

definition ObjectId_isValid :: "string \<Rightarrow> bool" where
  "ObjectId_isValid s = (length s = 24 \<and> list_all is_hex s)"

definition ObjectId_new :: "string \<Rightarrow> objectid" where
  "ObjectId_new s = of_nat (radix_val 16 s)"

definition hex_char :: "nat \<Rightarrow> char" where
  "hex_char d = char_of (if d < 10 then 48 + d else 87 + d)"

fun hex_digits :: "nat \<Rightarrow> nat \<Rightarrow> string" where
  "hex_digits 0 n = []"
| "hex_digits (Suc k) n = hex_digits k (n div 16) @ [hex_char (n mod 16)]"

definition toHexString :: "objectid \<Rightarrow> string" where
  "toHexString w = hex_digits 24 (unat w)"

text \<open>
  The documents the handlers write. A product has the fields \<^verbatim>\<open>_id\<close>, \<^verbatim>\<open>name\<close>,
  \<^verbatim>\<open>price\<close>, \<^verbatim>\<open>category\<close>, \<^verbatim>\<open>createdAt\<close>; an item has \<^verbatim>\<open>_id\<close>, \<^verbatim>\<open>name\<close>,
  \<^verbatim>\<open>description\<close>, \<^verbatim>\<open>createdAt\<close>, \<^verbatim>\<open>updatedAt\<close>. A date is its time value in
  milliseconds.
\<close>

record product =
  product_id :: objectid
  product_name :: string
  product_price :: jsnum
  product_category :: string
  product_createdAt :: int

record item =
  item_id :: objectid
  item_name :: string
  item_description :: string
  item_createdAt :: int
  item_updatedAt :: int

datatype collection = Products | Items

datatype operation = Find | FindOne | InsertOne | UpdateOne | DeleteOne

text \<open>
  The state of the store: the two collections, each in its natural order, and the
  trace of the driver calls made so far, so that a handler that returns without
  touching the store leaves the state as it was.
\<close>

record store =
  productsCollection :: "product list"
  itemsCollection :: "item list"
  accesses :: "(collection \<times> operation) list"

definition access :: "collection \<Rightarrow> operation \<Rightarrow> store \<Rightarrow> store" where
  "access c op st = st\<lparr>accesses := accesses st @ [(c, op)]\<rparr>"

text \<open>
  The collection operations, for a collection whose documents carry their key under
  \<open>key\<close>. \<^verbatim>\<open>insertOne\<close> fails on a key that is already in the collection (the unique
  index on \<^verbatim>\<open>_id\<close>); \<^verbatim>\<open>updateOne\<close> and \<^verbatim>\<open>deleteOne\<close> act on the first match and
  return the number of documents matched or deleted.
\<close>

datatype store_error = DuplicateKey

definition findOne :: "('d \<Rightarrow> objectid) \<Rightarrow> objectid \<Rightarrow> 'd list \<Rightarrow> 'd option" where
  "findOne key oid ds = List.find (\<lambda>d. key d = oid) ds"

definition insertOne :: "('d \<Rightarrow> objectid) \<Rightarrow> 'd \<Rightarrow> 'd list \<Rightarrow> store_error + 'd list" where
  "insertOne key d ds = (if key d \<in> key ` set ds then Inl DuplicateKey else Inr (ds @ [d]))"

fun updateOne :: "('d \<Rightarrow> objectid) \<Rightarrow> objectid \<Rightarrow> ('d \<Rightarrow> 'd) \<Rightarrow> 'd list \<Rightarrow> nat \<times> 'd list" where
  "updateOne key oid f [] = (0, [])"
| "updateOne key oid f (d # ds) =
     (if key d = oid then (1, f d # ds)
      else (case updateOne key oid f ds of (n, ds') \<Rightarrow> (n, d # ds')))"

fun deleteOne :: "('d \<Rightarrow> objectid) \<Rightarrow> objectid \<Rightarrow> 'd list \<Rightarrow> nat \<times> 'd list" where
  "deleteOne key oid [] = (0, [])"
| "deleteOne key oid (d # ds) =
     (if key d = oid then (1, ds)
      else (case deleteOne key oid ds of (n, ds') \<Rightarrow> (n, d # ds')))"

subsection \<open>Queries on products\<close>

text \<open>
  The order in which the store compares and sorts numbers: \<open>NaN\<close> first, then
  \<open>-Infinity\<close>, the finite numbers by value, and \<open>Infinity\<close> last.
\<close>

fun num_le :: "jsnum \<Rightarrow> jsnum \<Rightarrow> bool" where
  "num_le NaN y = True"
| "num_le x NaN = False"
| "num_le NInf y = True"
| "num_le x NInf = False"
| "num_le x PInf = True"
| "num_le PInf y = False"
| "num_le (Fin a) (Fin b) = (a \<le> b)"

text \<open>
  The operator \<^verbatim>\<open>$gte\<close> with a numeric bound: a \<open>NaN\<close> matches only a \<open>NaN\<close> bound.
\<close>

definition gte :: "jsnum \<Rightarrow> jsnum \<Rightarrow> bool" where
  "gte x m = ((x = NaN \<longleftrightarrow> m = NaN) \<and> num_le m x)"

text \<open>
  The filter object the list handler builds: \<^verbatim>\<open>{category: c}\<close> and
  \<^verbatim>\<open>{price: {$gte: min}}\<close>, each optional.
\<close>

record filter_spec =
  filter_category :: "string option"
  filter_price :: "jsnum option"

definition matches :: "filter_spec \<Rightarrow> product \<Rightarrow> bool" where
  "matches f p =
     ((case filter_category f of None \<Rightarrow> True | Some c \<Rightarrow> product_category p = c)
      \<and> (case filter_price f of None \<Rightarrow> True | Some m \<Rightarrow> gte (product_price p) m))"

text \<open>\<^verbatim>\<open>cursor.sort({price: 1})\<close>: ascending by price, as an insertion sort.\<close>

fun insert_by_price :: "product \<Rightarrow> product list \<Rightarrow> product list" where
  "insert_by_price p [] = [p]"
| "insert_by_price p (q # qs) =
     (if num_le (product_price p) (product_price q) then p # q # qs
      else q # insert_by_price p qs)"

definition sort_by_price :: "product list \<Rightarrow> product list" where
  "sort_by_price ps = foldr insert_by_price ps []"

text \<open>
  A document as it is returned: its fields in stored order. A projection
  \<^verbatim>\<open>{_id: 0, f1: 1, ..., fn: 1}\<close> keeps the top-level fields named in the list; the
  identifier is kept when the list names \<^verbatim>\<open>_id\<close>, which overwrites the \<^verbatim>\<open>_id: 0\<close>.
  (What the server does with a name that is not a plain field name is not modelled.)
\<close>

datatype field_value = VId objectid | VStr string | VNum jsnum | VDate int

type_synonym document = "(string \<times> field_value) list"

definition product_document :: "product \<Rightarrow> document" where
  "product_document p =
     [(''_id'', VId (product_id p)),
      (''name'', VStr (product_name p)),
      (''price'', VNum (product_price p)),
      (''category'', VStr (product_category p)),
      (''createdAt'', VDate (product_createdAt p))]"

definition project :: "string list option \<Rightarrow> document \<Rightarrow> document" where
  "project projection d =
     (case projection of
        None \<Rightarrow> d
      | Some fs \<Rightarrow> filter (\<lambda>kv. fst kv \<in> set fs) d)"

section \<open>The handlers\<close>

text \<open>
  A response is a status and a body. The constructors of the body are the shapes the
  handlers send: \<^verbatim>\<open>{error}\<close>, \<^verbatim>\<open>{message}\<close>, \<^verbatim>\<open>{message, id}\<close>, a product, an item,
  \<^verbatim>\<open>{count, products}\<close>, \<^verbatim>\<open>{count, items}\<close>, and the empty body of \<^verbatim>\<open>send()\<close>.

  A handler takes the state of the store and returns its response with the new state.
  Each handler body runs inside \<^verbatim>\<open>try\<close>/\<^verbatim>\<open>catch\<close>: an exception (a coercion that
  throws, a duplicate key) becomes the response 500. The store is taken to be
  reachable; its operations fail in no other way.
\<close>

datatype payload =
    Empty
  | ErrorJ string
  | MessageJ string
  | CreatedJ string objectid
  | ProductJ product
  | ItemJ item
  | ProductsJ nat "document list"
  | ItemsJ nat "item list"

datatype response = Response nat payload

fun status :: "response \<Rightarrow> nat" where
  "status (Response n b) = n"

fun payload_of :: "response \<Rightarrow> payload" where
  "payload_of (Response n b) = b"

definition internal_error :: response where
  "internal_error = Response 500 (ErrorJ ''Internal server error'')"

text \<open>
  The query of the list request. Each parameter is absent or a string (a parameter
  given once; repeated and bracketed parameters are outside the model).
\<close>

record query =
  query_category :: "string option"
  query_minPrice :: "string option"
  query_sort :: "string option"
  query_fields :: "string option"

subsection \<open>Products\<close>

text \<open>
  \<^verbatim>\<open>GET /api/products\<close>. The field list of the projection is
  \<^verbatim>\<open>String(fields).split(",").map((f) => f.trim()).filter(Boolean)\<close>; it is computed
  when \<^verbatim>\<open>fields\<close> is truthy, that is, present and not the empty string.
\<close>

definition fieldList :: "string \<Rightarrow> string list" where
  "fieldList s = filter (\<lambda>f. f \<noteq> []) (map trim (split_comma s))"

definition get_api_products :: "query \<Rightarrow> store \<Rightarrow> response \<times> store" where
  "get_api_products q st =
     (let min = map_option StringToNumber (query_minPrice q) in
      if min = Some NaN then (Response 400 (ErrorJ ''minPrice must be a number''), st)
      else
        let projection =
              (case query_fields q of
                 None \<Rightarrow> None
               | Some s \<Rightarrow> if s = [] then None else Some (fieldList s))
        in
        if projection = Some [] then
          (Response 400 (ErrorJ ''fields must contain at least one field name''), st)
        else
          let flt = \<lparr>filter_category =
                       (case query_category q of
                          None \<Rightarrow> None
                        | Some c \<Rightarrow> if c = [] then None else Some c),
                     filter_price = min\<rparr>;
              cursor = filter (matches flt) (productsCollection st);
              sorted_cursor = (if query_sort q = Some ''price'' then sort_by_price cursor else cursor);
              products = map (\<lambda>p. project projection (product_document p)) sorted_cursor
          in (Response 200 (ProductsJ (length products) products), access Products Find st))"

text \<open>\<^verbatim>\<open>GET /api/products/:id\<close>\<close>

definition get_api_products_id :: "string \<Rightarrow> store \<Rightarrow> response \<times> store" where
  "get_api_products_id id' st =
     (if \<not> ObjectId_isValid id' then (Response 400 (ErrorJ ''Invalid product ID''), st)
      else
        (case findOne product_id (ObjectId_new id') (productsCollection st) of
           None \<Rightarrow> (Response 404 (ErrorJ ''Product not found''), access Products FindOne st)
         | Some product \<Rightarrow> (Response 200 (ProductJ product), access Products FindOne st)))"

text \<open>
  \<^verbatim>\<open>POST /api/products\<close>. \<open>now\<close> is the reading of the clock by \<^verbatim>\<open>new Date()\<close> and
  \<open>oid\<close> the identifier the driver generates for the new document.
\<close>

definition post_api_products ::
  "(jsnum \<Rightarrow> string) \<Rightarrow> int \<Rightarrow> objectid \<Rightarrow> body \<Rightarrow> store \<Rightarrow> response \<times> store" where
  "post_api_products fmt now oid b st =
     (case (b ''name'', b ''price'', b ''category'') of
        (name, None, category) \<Rightarrow>
          (Response 400 (ErrorJ ''Missing fields: name, price, category''), st)
      | (name, Some price, category) \<Rightarrow>
          if \<not> truthy name \<or> \<not> truthy category then
            (Response 400 (ErrorJ ''Missing fields: name, price, category''), st)
          else
            (case ToNumber fmt price of
               None \<Rightarrow> (internal_error, st)
             | Some priceNumber \<Rightarrow>
                 if priceNumber = NaN then
                   (Response 400 (ErrorJ ''price must be a number''), st)
                 else
                   (case (Option.bind name (trimmed fmt), Option.bind category (trimmed fmt)) of
                      (Some n, Some c) \<Rightarrow>
                        (case insertOne product_id
                                \<lparr>product_id = oid, product_name = n, product_price = priceNumber,
                                 product_category = c, product_createdAt = now\<rparr>
                                (productsCollection st) of
                           Inl e \<Rightarrow> (internal_error, access Products InsertOne st)
                         | Inr ps \<Rightarrow>
                             (Response 201 (CreatedJ ''Product created'' oid),
                              access Products InsertOne (st\<lparr>productsCollection := ps\<rparr>)))
                    | _ \<Rightarrow> (internal_error, st))))"

text \<open>
  \<^verbatim>\<open>PUT /api/products/:id\<close>. The update object holds the fields the body supplies.
\<close>

record product_update =
  update_name :: "string option"
  update_category :: "string option"
  update_price :: "jsnum option"

definition set_product :: "product_update \<Rightarrow> product \<Rightarrow> product" where
  "set_product u p =
     p\<lparr>product_name := (case update_name u of None \<Rightarrow> product_name p | Some n \<Rightarrow> n),
       product_category := (case update_category u of None \<Rightarrow> product_category p | Some c \<Rightarrow> c),
       product_price := (case update_price u of None \<Rightarrow> product_price p | Some x \<Rightarrow> x)\<rparr>"

definition put_api_products_id ::
  "(jsnum \<Rightarrow> string) \<Rightarrow> string \<Rightarrow> body \<Rightarrow> store \<Rightarrow> response \<times> store" where
  "put_api_products_id fmt id' b st =
     (if \<not> ObjectId_isValid id' then (Response 400 (ErrorJ ''Invalid product ID''), st)
      else
        (case (if_defined (trimmed fmt) (b ''name''), if_defined (trimmed fmt) (b ''category'')) of
           (Some name, Some category) \<Rightarrow>
             (case if_defined (ToNumber fmt) (b ''price'') of
                None \<Rightarrow> (internal_error, st)
              | Some price \<Rightarrow>
                  if price = Some NaN then
                    (Response 400 (ErrorJ ''price must be a number''), st)
                  else if name = None \<and> category = None \<and> price = None then
                    (Response 400 (ErrorJ ''Nothing to update''), st)
                  else
                    (case updateOne product_id (ObjectId_new id')
                            (set_product \<lparr>update_name = name, update_category = category,
                                          update_price = price\<rparr>)
                            (productsCollection st) of
                       (matchedCount, ps) \<Rightarrow>
                         if matchedCount = 0 then
                           (Response 404 (ErrorJ ''Product not found''),
                            access Products UpdateOne st)
                         else
                           (Response 200 (MessageJ ''Product updated''),
                            access Products UpdateOne (st\<lparr>productsCollection := ps\<rparr>))))
         | _ \<Rightarrow> (internal_error, st)))"

text \<open>\<^verbatim>\<open>DELETE /api/products/:id\<close>\<close>

definition delete_api_products_id :: "string \<Rightarrow> store \<Rightarrow> response \<times> store" where
  "delete_api_products_id id' st =
     (if \<not> ObjectId_isValid id' then (Response 400 (ErrorJ ''Invalid product ID''), st)
      else
        (case deleteOne product_id (ObjectId_new id') (productsCollection st) of
           (deletedCount, ps) \<Rightarrow>
             if deletedCount = 0 then
               (Response 404 (ErrorJ ''Product not found''), access Products DeleteOne st)
             else
               (Response 200 (MessageJ ''Product deleted''),
                access Products DeleteOne (st\<lparr>productsCollection := ps\<rparr>))))"

subsection \<open>Items\<close>

text \<open>\<^verbatim>\<open>GET /api/items\<close>\<close>

definition get_api_items :: "store \<Rightarrow> response \<times> store" where
  "get_api_items st =
     (let items = itemsCollection st
      in (Response 200 (ItemsJ (length items) items), access Items Find st))"

text \<open>\<^verbatim>\<open>GET /api/items/:id\<close>\<close>

definition get_api_items_id :: "string \<Rightarrow> store \<Rightarrow> response \<times> store" where
  "get_api_items_id id' st =
     (if \<not> ObjectId_isValid id' then (Response 400 (ErrorJ ''Invalid item ID''), st)
      else
        (case findOne item_id (ObjectId_new id') (itemsCollection st) of
           None \<Rightarrow> (Response 404 (ErrorJ ''Item not found''), access Items FindOne st)
         | Some item \<Rightarrow> (Response 200 (ItemJ item), access Items FindOne st)))"

text \<open>
  \<^verbatim>\<open>POST /api/items\<close>. The document is built with two calls of \<^verbatim>\<open>new Date()\<close>:
  \<open>now_created\<close> is the reading of the first, for \<^verbatim>\<open>createdAt\<close>, and
  \<open>now_updated\<close> the reading of the second, for \<^verbatim>\<open>updatedAt\<close>.
\<close>

definition post_api_items ::
  "(jsnum \<Rightarrow> string) \<Rightarrow> int \<Rightarrow> int \<Rightarrow> objectid \<Rightarrow> body \<Rightarrow> store \<Rightarrow> response \<times> store" where
  "post_api_items fmt now_created now_updated oid b st =
     (let name = b ''name''; description = b ''description'' in
      if \<not> truthy name \<or> \<not> truthy description then
        (Response 400 (ErrorJ ''Missing required fields: name, description''), st)
      else
        (case (Option.bind name (trimmed fmt), Option.bind description (trimmed fmt)) of
           (Some n, Some d) \<Rightarrow>
             if n = [] \<or> d = [] then
               (Response 400 (ErrorJ ''name and description cannot be empty''), st)
             else
               (case insertOne item_id
                       \<lparr>item_id = oid, item_name = n, item_description = d,
                        item_createdAt = now_created, item_updatedAt = now_updated\<rparr>
                       (itemsCollection st) of
                  Inl e \<Rightarrow> (internal_error, access Items InsertOne st)
                | Inr xs \<Rightarrow>
                    (Response 201 (CreatedJ ''Item created'' oid),
                     access Items InsertOne (st\<lparr>itemsCollection := xs\<rparr>)))
         | _ \<Rightarrow> (internal_error, st)))"

text \<open>
  The update object of \<^verbatim>\<open>PUT\<close> and \<^verbatim>\<open>PATCH\<close> on an item: \<^verbatim>\<open>updatedAt\<close> always, the
  name and the description when supplied.
\<close>

record item_update =
  set_name :: "string option"
  set_description :: "string option"
  set_updatedAt :: int

definition set_item :: "item_update \<Rightarrow> item \<Rightarrow> item" where
  "set_item u x =
     x\<lparr>item_name := (case set_name u of None \<Rightarrow> item_name x | Some n \<Rightarrow> n),
       item_description := (case set_description u of None \<Rightarrow> item_description x | Some d \<Rightarrow> d),
       item_updatedAt := set_updatedAt u\<rparr>"

text \<open>\<^verbatim>\<open>PUT /api/items/:id\<close>\<close>

definition put_api_items_id ::
  "(jsnum \<Rightarrow> string) \<Rightarrow> int \<Rightarrow> string \<Rightarrow> body \<Rightarrow> store \<Rightarrow> response \<times> store" where
  "put_api_items_id fmt now id' b st =
     (if \<not> ObjectId_isValid id' then (Response 400 (ErrorJ ''Invalid item ID''), st)
      else
        let name = b ''name''; description = b ''description'' in
        if \<not> truthy name \<or> \<not> truthy description then
          (Response 400
             (ErrorJ ''PUT requires full update: name and description are required''), st)
        else
          (case (Option.bind name (trimmed fmt), Option.bind description (trimmed fmt)) of
             (Some n, Some d) \<Rightarrow>
               if n = [] \<or> d = [] then
                 (Response 400 (ErrorJ ''name and description cannot be empty''), st)
               else
                 (case updateOne item_id (ObjectId_new id')
                         (set_item \<lparr>set_name = Some n, set_description = Some d,
                                    set_updatedAt = now\<rparr>)
                         (itemsCollection st) of
                    (matchedCount, xs) \<Rightarrow>
                      if matchedCount = 0 then
                        (Response 404 (ErrorJ ''Item not found''), access Items UpdateOne st)
                      else
                        (Response 200 (MessageJ ''Item updated (PUT)''),
                         access Items UpdateOne (st\<lparr>itemsCollection := xs\<rparr>)))
           | _ \<Rightarrow> (internal_error, st)))"

text \<open>\<^verbatim>\<open>PATCH /api/items/:id\<close>\<close>

definition patch_api_items_id ::
  "(jsnum \<Rightarrow> string) \<Rightarrow> int \<Rightarrow> string \<Rightarrow> body \<Rightarrow> store \<Rightarrow> response \<times> store" where
  "patch_api_items_id fmt now id' b st =
     (if \<not> ObjectId_isValid id' then (Response 400 (ErrorJ ''Invalid item ID''), st)
      else
        (case if_defined (trimmed fmt) (b ''name'') of
           None \<Rightarrow> (internal_error, st)
         | Some n \<Rightarrow>
             if n = Some [] then (Response 400 (ErrorJ ''name cannot be empty''), st)
             else
               (case if_defined (trimmed fmt) (b ''description'') of
                  None \<Rightarrow> (internal_error, st)
                | Some d \<Rightarrow>
                    if d = Some [] then
                      (Response 400 (ErrorJ ''description cannot be empty''), st)
                    else if n = None \<and> d = None then
                      (Response 400
                         (ErrorJ ''PATCH requires at least one field: name or description''), st)
                    else
                      (case updateOne item_id (ObjectId_new id')
                              (set_item \<lparr>set_name = n, set_description = d,
                                         set_updatedAt = now\<rparr>)
                              (itemsCollection st) of
                         (matchedCount, xs) \<Rightarrow>
                           if matchedCount = 0 then
                             (Response 404 (ErrorJ ''Item not found''),
                              access Items UpdateOne st)
                           else
                             (Response 200 (MessageJ ''Item updated (PATCH)''),
                              access Items UpdateOne (st\<lparr>itemsCollection := xs\<rparr>))))))"

text \<open>\<^verbatim>\<open>DELETE /api/items/:id\<close>\<close>

definition delete_api_items_id :: "string \<Rightarrow> store \<Rightarrow> response \<times> store" where
  "delete_api_items_id id' st =
     (if \<not> ObjectId_isValid id' then (Response 400 (ErrorJ ''Invalid item ID''), st)
      else
        (case deleteOne item_id (ObjectId_new id') (itemsCollection st) of
           (deletedCount, xs) \<Rightarrow>
             if deletedCount = 0 then
               (Response 404 (ErrorJ ''Item not found''), access Items DeleteOne st)
             else
               (Response 204 Empty, access Items DeleteOne (st\<lparr>itemsCollection := xs\<rparr>))))"

section \<open>Notions used by the results\<close>

text \<open>\<^verbatim>\<open>Number(v)\<close> on a property that may be absent: \<^verbatim>\<open>Number(undefined)\<close> is \<open>NaN\<close>.\<close>

definition Number :: "(jsnum \<Rightarrow> string) \<Rightarrow> jsval option \<Rightarrow> jsnum option" where
  "Number fmt v = (case v of None \<Rightarrow> Some NaN | Some x \<Rightarrow> ToNumber fmt x)"

text \<open>The unique index on \<^verbatim>\<open>_id\<close>: no two documents of a collection share a key.\<close>

definition unique_ids :: "store \<Rightarrow> bool" where
  "unique_ids st =
     (distinct (map product_id (productsCollection st))
      \<and> distinct (map item_id (itemsCollection st)))"

text \<open>Ascending price, in the order of the store.\<close>

definition price_le :: "product \<Rightarrow> product \<Rightarrow> bool" where
  "price_le p q = num_le (product_price p) (product_price q)"

text \<open>A price that is a number at least \<open>m\<close>.\<close>

definition price_at_least :: "rat \<Rightarrow> product \<Rightarrow> bool" where
  "price_at_least m p =
     (case product_price p of Fin r \<Rightarrow> m \<le> r | PInf \<Rightarrow> True | _ \<Rightarrow> False)"

section \<open>Sample data\<close>

text \<open>
  A store with no document, and one with three products and one item, used to
  instantiate the results below. No number is formatted at these inputs, so the
  formatter passed there is a constant function.
\<close>

definition empty_store :: store where
  "empty_store = \<lparr>productsCollection = [], itemsCollection = [], accesses = []\<rparr>"

definition sample_store :: store where
  "sample_store =
     \<lparr>productsCollection =
        [\<lparr>product_id = 1, product_name = ''Laptop'', product_price = Fin 900,
          product_category = ''Electronics'', product_createdAt = 10\<rparr>,
         \<lparr>product_id = 2, product_name = ''Pen'', product_price = Fin 2,
          product_category = ''Office'', product_createdAt = 20\<rparr>,
         \<lparr>product_id = 3, product_name = ''Lamp'', product_price = Fin 50,
          product_category = ''Home'', product_createdAt = 30\<rparr>],
      itemsCollection =
        [\<lparr>item_id = 7, item_name = ''Box'', item_description = ''A box'',
          item_createdAt = 40, item_updatedAt = 40\<rparr>],
      accesses = []\<rparr>"

section \<open>Identifiers\<close>

lemma code_unit_char_of: "n < 256 \<Longrightarrow> code_unit (char_of n) = n"
  by (simp add: code_unit_def)

lemma hex_val_hex_char: "d < 16 \<Longrightarrow> hex_val (hex_char d) = d"
  by (auto simp: hex_val_def hex_char_def is_digit_def code_unit_char_of)

lemma is_hex_hex_char: "d < 16 \<Longrightarrow> is_hex (hex_char d)"
  by (auto simp: is_hex_def hex_char_def is_digit_def code_unit_char_of)

lemma length_hex_digits: "length (hex_digits k n) = k"
  by (induction k arbitrary: n) auto

lemma all_hex_hex_digits: "list_all is_hex (hex_digits k n)"
  by (induction k arbitrary: n) (auto simp: is_hex_hex_char)

lemma radix_val_snoc: "radix_val b (s @ [c]) = b * radix_val b s + hex_val c"
  by (simp add: radix_val_def)

lemma radix_val_hex_digits: "radix_val 16 (hex_digits k n) = n mod 16 ^ k"
proof (induction k arbitrary: n)
  case 0
  then show ?case by (simp add: radix_val_def)
next
  case (Suc k)
  have "radix_val 16 (hex_digits (Suc k) n) = 16 * ((n div 16) mod 16 ^ k) + n mod 16"
    by (simp add: radix_val_snoc Suc hex_val_hex_char)
  also have "\<dots> = n mod 16 ^ Suc k"
    by (simp add: mod_mult2_eq)
  finally show ?case .
qed

text \<open>The text of an identifier is a valid identifier string, and reads back as it.\<close>

lemma isValid_toHexString: "ObjectId_isValid (toHexString w)"
  by (simp add: ObjectId_isValid_def toHexString_def length_hex_digits all_hex_hex_digits)

lemma ObjectId_new_toHexString: "ObjectId_new (toHexString w) = w"
proof -
  have "unat w < 2 ^ 96"
    using unsigned_less [of w] by simp
  then have "unat w mod 16 ^ 24 = unat w" by simp
  then show ?thesis
    by (simp add: ObjectId_new_def toHexString_def radix_val_hex_digits)
qed

section \<open>Malformed identifiers\<close>

text \<open>
  Claim C1. For an identifier string that \<^verbatim>\<open>ObjectId.isValid\<close> rejects, each of the
  seven routes with an \<^verbatim>\<open>:id\<close> segment answers 400, and the store, with its trace of
  driver calls, is as before: no store operation was made.
\<close>

theorem invalid_id_rejected:
  assumes "\<not> ObjectId_isValid id'"
  shows "get_api_products_id id' st = (Response 400 (ErrorJ ''Invalid product ID''), st)
    \<and> put_api_products_id fmt id' b st = (Response 400 (ErrorJ ''Invalid product ID''), st)
    \<and> delete_api_products_id id' st = (Response 400 (ErrorJ ''Invalid product ID''), st)
    \<and> get_api_items_id id' st = (Response 400 (ErrorJ ''Invalid item ID''), st)
    \<and> put_api_items_id fmt now id' b st = (Response 400 (ErrorJ ''Invalid item ID''), st)
    \<and> patch_api_items_id fmt now id' b st = (Response 400 (ErrorJ ''Invalid item ID''), st)
    \<and> delete_api_items_id id' st = (Response 400 (ErrorJ ''Invalid item ID''), st)"
  using assms
  by (simp add: get_api_products_id_def put_api_products_id_def delete_api_products_id_def
      get_api_items_id_def put_api_items_id_def patch_api_items_id_def delete_api_items_id_def)

theorem invalid_id_rejected_witness:
  "\<not> ObjectId_isValid ''12345''
    \<and> get_api_products_id ''12345'' sample_store
        = (Response 400 (ErrorJ ''Invalid product ID''), sample_store)
    \<and> put_api_products_id (\<lambda>n. ''0'') ''12345'' [''name'' \<mapsto> JStr ''Desk''] sample_store
        = (Response 400 (ErrorJ ''Invalid product ID''), sample_store)
    \<and> delete_api_products_id ''12345'' sample_store
        = (Response 400 (ErrorJ ''Invalid product ID''), sample_store)
    \<and> get_api_items_id ''12345'' sample_store
        = (Response 400 (ErrorJ ''Invalid item ID''), sample_store)
    \<and> put_api_items_id (\<lambda>n. ''0'') 99 ''12345'' [''name'' \<mapsto> JStr ''Desk''] sample_store
        = (Response 400 (ErrorJ ''Invalid item ID''), sample_store)
    \<and> patch_api_items_id (\<lambda>n. ''0'') 99 ''12345'' [''name'' \<mapsto> JStr ''Desk''] sample_store
        = (Response 400 (ErrorJ ''Invalid item ID''), sample_store)
    \<and> delete_api_items_id ''12345'' sample_store
        = (Response 400 (ErrorJ ''Invalid item ID''), sample_store)"
proof -
  have invalid: "\<not> ObjectId_isValid ''12345''"
    by (simp add: ObjectId_isValid_def)
  show ?thesis
    using invalid
      invalid_id_rejected [OF invalid, where st = sample_store and fmt = "\<lambda>n. ''0''"
        and now = 99 and b = "[''name'' \<mapsto> JStr ''Desk'']"]
    by simp
qed

section \<open>Creating a product\<close>

lemma StringToNumber_abc: "StringToNumber ''abc'' = NaN"
  by code_simp

lemma insertOne_fresh: "key d \<notin> key ` set ds \<Longrightarrow> insertOne key d ds = Inr (ds @ [d])"
  by (simp add: insertOne_def)

lemma trimmed_JStr: "trimmed fmt (JStr s) = Some (trim s)"
  by (simp add: trimmed_def)

text \<open>
  Claim C5. When \<^verbatim>\<open>Number(price)\<close> is \<open>NaN\<close> for the price of the body (an absent
  price included), \<^verbatim>\<open>POST /api/products\<close> answers 400 and the store is as before: no
  document is inserted and no store operation is made.
\<close>

theorem post_product_non_numeric_price:
  assumes "Number fmt (b ''price'') = Some NaN"
  shows "status (fst (post_api_products fmt now oid b st)) = 400
    \<and> snd (post_api_products fmt now oid b st) = st"
  using assms
  by (auto simp: post_api_products_def Number_def split: option.splits)

theorem post_product_non_numeric_price_witness:
  "Number (\<lambda>n. ''0'')
     ([''name'' \<mapsto> JStr ''Desk'', ''price'' \<mapsto> JStr ''abc'', ''category'' \<mapsto> JStr ''Home'']
        ''price'') = Some NaN
   \<and> status (fst (post_api_products (\<lambda>n. ''0'') 99 4
        [''name'' \<mapsto> JStr ''Desk'', ''price'' \<mapsto> JStr ''abc'', ''category'' \<mapsto> JStr ''Home'']
        sample_store)) = 400
   \<and> snd (post_api_products (\<lambda>n. ''0'') 99 4
        [''name'' \<mapsto> JStr ''Desk'', ''price'' \<mapsto> JStr ''abc'', ''category'' \<mapsto> JStr ''Home'']
        sample_store) = sample_store"
  using post_product_non_numeric_price [where fmt = "\<lambda>n. ''0''" and now = 99 and oid = 4
      and st = sample_store
      and b = "[''name'' \<mapsto> JStr ''Desk'', ''price'' \<mapsto> JStr ''abc'',
                ''category'' \<mapsto> JStr ''Home'']"]
  by (simp add: Number_def StringToNumber_abc)

text \<open>
  Claim C9. Let the name and the category of the body be non-empty strings, and the
  generated identifier be unused. A price \<^verbatim>\<open>null\<close> passes the missing-field check
  (which compares with \<^verbatim>\<open>undefined\<close> only), is coerced to 0, and the handler answers
  201 and appends a product of price 0; a price \<^verbatim>\<open>true\<close> is stored as 1. In general a
  price whose coercion does not throw is answered 400, as non-numeric, exactly when the
  coercion is \<open>NaN\<close>, and 201 otherwise.
\<close>

theorem post_product_coerced_price:
  assumes "b ''name'' = Some (JStr n)" and "n \<noteq> []"
    and "b ''category'' = Some (JStr c)" and "c \<noteq> []"
    and "oid \<notin> product_id ` set (productsCollection st)"
  shows "(b ''price'' = Some JNull \<longrightarrow>
            post_api_products fmt now oid b st =
              (Response 201 (CreatedJ ''Product created'' oid),
               access Products InsertOne (st\<lparr>productsCollection := productsCollection st @
                 [\<lparr>product_id = oid, product_name = trim n, product_price = Fin 0,
                   product_category = trim c, product_createdAt = now\<rparr>]\<rparr>)))
    \<and> (b ''price'' = Some (JBool True) \<longrightarrow>
            post_api_products fmt now oid b st =
              (Response 201 (CreatedJ ''Product created'' oid),
               access Products InsertOne (st\<lparr>productsCollection := productsCollection st @
                 [\<lparr>product_id = oid, product_name = trim n, product_price = Fin 1,
                   product_category = trim c, product_createdAt = now\<rparr>]\<rparr>)))
    \<and> (\<forall>v x. b ''price'' = Some v \<and> ToNumber fmt v = Some x \<longrightarrow>
            (if x = NaN then
               post_api_products fmt now oid b st =
                 (Response 400 (ErrorJ ''price must be a number''), st)
             else
               fst (post_api_products fmt now oid b st) =
                 Response 201 (CreatedJ ''Product created'' oid)))"
  using assms
  by (auto simp: post_api_products_def trimmed_JStr insertOne_fresh)

lemma trim_Desk: "trim ''Desk'' = ''Desk''" "trim ''Home'' = ''Home''"
  by (simp_all add: trim_def is_space_def code_unit_def)

theorem post_product_coerced_price_witness:
  "4 \<notin> product_id ` set (productsCollection sample_store)
   \<and> post_api_products (\<lambda>n. ''0'') 99 4
        [''name'' \<mapsto> JStr ''Desk'', ''price'' \<mapsto> JNull, ''category'' \<mapsto> JStr ''Home'']
        sample_store =
      (Response 201 (CreatedJ ''Product created'' 4),
       access Products InsertOne
         (sample_store\<lparr>productsCollection := productsCollection sample_store @
            [\<lparr>product_id = 4, product_name = ''Desk'', product_price = Fin 0,
              product_category = ''Home'', product_createdAt = 99\<rparr>]\<rparr>))
   \<and> post_api_products (\<lambda>n. ''0'') 99 4
        [''name'' \<mapsto> JStr ''Desk'', ''price'' \<mapsto> JBool True, ''category'' \<mapsto> JStr ''Home'']
        sample_store =
      (Response 201 (CreatedJ ''Product created'' 4),
       access Products InsertOne
         (sample_store\<lparr>productsCollection := productsCollection sample_store @
            [\<lparr>product_id = 4, product_name = ''Desk'', product_price = Fin 1,
              product_category = ''Home'', product_createdAt = 99\<rparr>]\<rparr>))"
proof -
  have fresh: "4 \<notin> product_id ` set (productsCollection sample_store)"
    by (simp add: sample_store_def)
  have null: "post_api_products (\<lambda>n. ''0'') 99 4
        [''name'' \<mapsto> JStr ''Desk'', ''price'' \<mapsto> JNull, ''category'' \<mapsto> JStr ''Home'']
        sample_store =
      (Response 201 (CreatedJ ''Product created'' 4),
       access Products InsertOne
         (sample_store\<lparr>productsCollection := productsCollection sample_store @
            [\<lparr>product_id = 4, product_name = ''Desk'', product_price = Fin 0,
              product_category = ''Home'', product_createdAt = 99\<rparr>]\<rparr>))"
    using post_product_coerced_price [where n = "''Desk''" and c = "''Home''" and oid = 4
        and st = sample_store and fmt = "\<lambda>n. ''0''" and now = 99
        and b = "[''name'' \<mapsto> JStr ''Desk'', ''price'' \<mapsto> JNull,
                  ''category'' \<mapsto> JStr ''Home'']"] fresh
    by (simp add: trim_Desk)
  have true: "post_api_products (\<lambda>n. ''0'') 99 4
        [''name'' \<mapsto> JStr ''Desk'', ''price'' \<mapsto> JBool True, ''category'' \<mapsto> JStr ''Home'']
        sample_store =
      (Response 201 (CreatedJ ''Product created'' 4),
       access Products InsertOne
         (sample_store\<lparr>productsCollection := productsCollection sample_store @
            [\<lparr>product_id = 4, product_name = ''Desk'', product_price = Fin 1,
              product_category = ''Home'', product_createdAt = 99\<rparr>]\<rparr>))"
    using post_product_coerced_price [where n = "''Desk''" and c = "''Home''" and oid = 4
        and st = sample_store and fmt = "\<lambda>n. ''0''" and now = 99
        and b = "[''name'' \<mapsto> JStr ''Desk'', ''price'' \<mapsto> JBool True,
                  ''category'' \<mapsto> JStr ''Home'']"] fresh
    by (simp add: trim_Desk)
  show ?thesis using fresh null true by simp
qed

section \<open>Patching an item\<close>

text \<open>
  Claim C6. A \<^verbatim>\<open>PATCH /api/items/:id\<close> whose body has the empty string as name answers
  400, whatever the identifier and the store, and leaves the store as it was: no
  document is written, no update timestamp refreshed, no store operation made.
\<close>

theorem patch_item_empty_name:
  assumes "b ''name'' = Some (JStr [])"
  shows "status (fst (patch_api_items_id fmt now id' b st)) = 400
    \<and> snd (patch_api_items_id fmt now id' b st) = st"
  using assms
  by (simp add: patch_api_items_id_def trimmed_def trim_def)

lemma sample_item_found:
  "findOne item_id (ObjectId_new ''000000000000000000000007'') (itemsCollection sample_store)
     = Some \<lparr>item_id = 7, item_name = ''Box'', item_description = ''A box'',
          item_createdAt = 40, item_updatedAt = 40\<rparr>"
  by (simp add: findOne_def ObjectId_new_def radix_val_def hex_val_def is_digit_def
      code_unit_def sample_store_def)

theorem patch_item_empty_name_witness:
  "[''name'' \<mapsto> JStr []] ''name'' = Some (JStr [])
   \<and> findOne item_id (ObjectId_new ''000000000000000000000007'') (itemsCollection sample_store)
     = Some \<lparr>item_id = 7, item_name = ''Box'', item_description = ''A box'',
          item_createdAt = 40, item_updatedAt = 40\<rparr>
   \<and> status (fst (patch_api_items_id (\<lambda>n. ''0'') 99 ''000000000000000000000007''
        [''name'' \<mapsto> JStr []] sample_store)) = 400
   \<and> snd (patch_api_items_id (\<lambda>n. ''0'') 99 ''000000000000000000000007''
        [''name'' \<mapsto> JStr []] sample_store) = sample_store"
  using patch_item_empty_name [where b = "[''name'' \<mapsto> JStr []]" and fmt = "\<lambda>n. ''0''"
      and now = 99 and id' = "''000000000000000000000007''" and st = sample_store]
    sample_item_found
  by simp

section \<open>Listing\<close>

text \<open>
  Claim C10. Whenever \<^verbatim>\<open>GET /api/products\<close> answers 200, the \<^verbatim>\<open>count\<close> of its body
  is the length of its \<^verbatim>\<open>products\<close> array; \<^verbatim>\<open>GET /api/items\<close> always answers 200, and
  its \<^verbatim>\<open>count\<close> is the length of its \<^verbatim>\<open>items\<close> array.
\<close>

theorem list_count:
  "(status (fst (get_api_products q st)) = 200 \<longrightarrow>
      (\<exists>ds. payload_of (fst (get_api_products q st)) = ProductsJ (length ds) ds))
   \<and> (\<exists>xs. fst (get_api_items st) = Response 200 (ItemsJ (length xs) xs))"
  by (auto simp: get_api_products_def get_api_items_def Let_def)

lemma sample_list_ok:
  "status (fst (get_api_products
      \<lparr>query_category = None, query_minPrice = None, query_sort = None, query_fields = None\<rparr>
      sample_store)) = 200"
  by (simp add: get_api_products_def Let_def)

theorem list_count_witness:
  "status (fst (get_api_products
      \<lparr>query_category = None, query_minPrice = None, query_sort = None, query_fields = None\<rparr>
      sample_store)) = 200
   \<and> (\<exists>ds. payload_of (fst (get_api_products
      \<lparr>query_category = None, query_minPrice = None, query_sort = None, query_fields = None\<rparr>
      sample_store)) = ProductsJ (length ds) ds)
   \<and> (\<exists>xs. fst (get_api_items sample_store) = Response 200 (ItemsJ (length xs) xs))"
  using list_count [of "\<lparr>query_category = None, query_minPrice = None, query_sort = None,
      query_fields = None\<rparr>" sample_store] sample_list_ok
  by blast

section \<open>Filtering and sorting products\<close>

lemma num_le_total: "num_le x y \<or> num_le y x"
  by (cases x; cases y) auto

lemma num_le_trans: "num_le x y \<Longrightarrow> num_le y z \<Longrightarrow> num_le x z"
  by (cases x; cases y; cases z) auto

lemma mset_insert_by_price: "mset (insert_by_price p qs) = add_mset p (mset qs)"
  by (induction qs) auto

lemma set_insert_by_price: "set (insert_by_price p qs) = insert p (set qs)"
  by (induction qs) auto

lemma ascending_insert_by_price:
  "sorted_wrt price_le qs \<Longrightarrow> sorted_wrt price_le (insert_by_price p qs)"
proof (induction qs)
  case Nil
  then show ?case by simp
next
  case (Cons q qs)
  show ?case
  proof (cases "num_le (product_price p) (product_price q)")
    case True
    then have "\<forall>r \<in> set qs. price_le p r"
      using Cons.prems by (auto simp: price_le_def intro: num_le_trans)
    with True Cons.prems show ?thesis by (simp add: price_le_def)
  next
    case False
    then have "price_le q p"
      using num_le_total [of "product_price p" "product_price q"] by (simp add: price_le_def)
    with False Cons show ?thesis by (auto simp: set_insert_by_price)
  qed
qed

lemma mset_sort_by_price: "mset (sort_by_price ps) = mset ps"
  unfolding sort_by_price_def by (induction ps) (simp_all add: mset_insert_by_price)

lemma ascending_sort_by_price: "sorted_wrt price_le (sort_by_price ps)"
  unfolding sort_by_price_def by (induction ps) (simp_all add: ascending_insert_by_price)

lemma gte_Fin: "gte x (Fin m) = (case x of Fin r \<Rightarrow> m \<le> r | PInf \<Rightarrow> True | _ \<Rightarrow> False)"
  by (cases x) (simp_all add: gte_def)

lemma StringToNumber_50: "StringToNumber ''50'' = Fin 50"
  by code_simp

lemma matches_minPrice:
  "matches \<lparr>filter_category = None, filter_price = Some (Fin m)\<rparr> = price_at_least m"
  by (rule ext) (simp add: matches_def gte_Fin price_at_least_def)

lemma matches_all: "matches \<lparr>filter_category = None, filter_price = None\<rparr> = (\<lambda>p. True)"
  by (rule ext) (simp add: matches_def)

text \<open>
  Claim C3. With \<^verbatim>\<open>minPrice=50\<close> alone, the list holds exactly the products whose
  price is at least 50, in the order of the store. With \<^verbatim>\<open>sort=price\<close> alone, it holds
  all products, rearranged in ascending price. With both, it is the products of price
  at least 50, sorted by ascending price.
\<close>

theorem list_products_minPrice_sort:
  "fst (get_api_products
         \<lparr>query_category = None, query_minPrice = Some ''50'', query_sort = None,
           query_fields = None\<rparr> st)
     = Response 200
         (ProductsJ (length (filter (price_at_least 50) (productsCollection st)))
            (map product_document (filter (price_at_least 50) (productsCollection st))))
   \<and> (\<exists>ps. fst (get_api_products
                \<lparr>query_category = None, query_minPrice = None, query_sort = Some ''price'',
                  query_fields = None\<rparr> st)
            = Response 200 (ProductsJ (length ps) (map product_document ps))
          \<and> sorted_wrt price_le ps
          \<and> mset ps = mset (productsCollection st))
   \<and> (\<exists>ps. fst (get_api_products
                \<lparr>query_category = None, query_minPrice = Some ''50'',
                  query_sort = Some ''price'', query_fields = None\<rparr> st)
            = Response 200 (ProductsJ (length ps) (map product_document ps))
          \<and> ps = sort_by_price (filter (price_at_least 50) (productsCollection st))
          \<and> sorted_wrt price_le ps
          \<and> mset ps = mset (filter (price_at_least 50) (productsCollection st)))"
proof (intro conjI)
  show "fst (get_api_products
         \<lparr>query_category = None, query_minPrice = Some ''50'', query_sort = None,
           query_fields = None\<rparr> st)
     = Response 200
         (ProductsJ (length (filter (price_at_least 50) (productsCollection st)))
            (map product_document (filter (price_at_least 50) (productsCollection st))))"
    by (simp add: get_api_products_def Let_def StringToNumber_50 matches_minPrice project_def)
next
  have "fst (get_api_products
                \<lparr>query_category = None, query_minPrice = None, query_sort = Some ''price'',
                  query_fields = None\<rparr> st)
        = Response 200 (ProductsJ (length (sort_by_price (productsCollection st)))
            (map product_document (sort_by_price (productsCollection st))))"
    by (simp add: get_api_products_def Let_def matches_all project_def)
  then show "\<exists>ps. fst (get_api_products
                \<lparr>query_category = None, query_minPrice = None, query_sort = Some ''price'',
                  query_fields = None\<rparr> st)
            = Response 200 (ProductsJ (length ps) (map product_document ps))
          \<and> sorted_wrt price_le ps
          \<and> mset ps = mset (productsCollection st)"
    using ascending_sort_by_price mset_sort_by_price by blast
next
  have "fst (get_api_products
                \<lparr>query_category = None, query_minPrice = Some ''50'',
                  query_sort = Some ''price'', query_fields = None\<rparr> st)
        = Response 200
            (ProductsJ (length (sort_by_price (filter (price_at_least 50) (productsCollection st))))
              (map product_document
                 (sort_by_price (filter (price_at_least 50) (productsCollection st)))))"
    by (simp add: get_api_products_def Let_def StringToNumber_50 matches_minPrice project_def)
  then show "\<exists>ps. fst (get_api_products
                \<lparr>query_category = None, query_minPrice = Some ''50'',
                  query_sort = Some ''price'', query_fields = None\<rparr> st)
            = Response 200 (ProductsJ (length ps) (map product_document ps))
          \<and> ps = sort_by_price (filter (price_at_least 50) (productsCollection st))
          \<and> sorted_wrt price_le ps
          \<and> mset ps = mset (filter (price_at_least 50) (productsCollection st))"
    using ascending_sort_by_price mset_sort_by_price by blast
qed

section \<open>Projection\<close>

lemma fieldList_name_price: "fieldList ''name,price'' = [''name'', ''price'']"
  by (simp add: fieldList_def trim_def is_space_def code_unit_def)

lemma fieldList_empty: "fieldList [] = []"
  by (simp add: fieldList_def trim_def)

lemma id_in_projection:
  "(''_id'' \<in> fst ` set (project (Some fs) (product_document p))) = (''_id'' \<in> set fs)"
  by (auto simp: project_def product_document_def)

lemma fieldList_blank: "fieldList '' , '' = []"
  by (simp add: fieldList_def trim_def is_space_def code_unit_def)

lemma fieldList_id_name: "fieldList ''_id, name'' = [''_id'', ''name'']"
  by (simp add: fieldList_def trim_def is_space_def code_unit_def)

lemma sample_projected_ok:
  "status (fst (get_api_products
      \<lparr>query_category = None, query_minPrice = None, query_sort = None,
        query_fields = Some ''_id, name''\<rparr> sample_store)) = 200"
  by (simp add: get_api_products_def Let_def fieldList_id_name)

text \<open>
  Claim C4, as the code has it. With \<^verbatim>\<open>fields=name,price\<close> every returned object holds
  the name and the price of a product and nothing else. A \<^verbatim>\<open>fields\<close> parameter that is
  not the empty string and whose list is empty after trimming is answered 400, with no
  store operation; the empty string is falsy, so \<^verbatim>\<open>fields=\<close> is handled as an absent
  parameter. When a projection is applied and the answer is 200, a returned object has
  the identifier exactly when the list names \<^verbatim>\<open>_id\<close>.
\<close>

theorem list_products_fields:
  "fst (get_api_products
         \<lparr>query_category = None, query_minPrice = None, query_sort = None,
           query_fields = Some ''name,price''\<rparr> st)
     = Response 200
         (ProductsJ (length (productsCollection st))
            (map (\<lambda>p. [(''name'', VStr (product_name p)), (''price'', VNum (product_price p))])
               (productsCollection st)))
   \<and> (\<forall>f. query_fields q = Some f \<and> f \<noteq> [] \<and> fieldList f = [] \<longrightarrow>
          status (fst (get_api_products q st)) = 400 \<and> snd (get_api_products q st) = st)
   \<and> (query_fields q = Some [] \<longrightarrow>
          get_api_products q st = get_api_products (q\<lparr>query_fields := None\<rparr>) st)
   \<and> (\<forall>f. query_fields q = Some f \<and> f \<noteq> [] \<and> status (fst (get_api_products q st)) = 200 \<longrightarrow>
          (\<exists>ds. payload_of (fst (get_api_products q st)) = ProductsJ (length ds) ds
             \<and> (\<forall>d \<in> set ds. (''_id'' \<in> fst ` set d) = (''_id'' \<in> set (fieldList f)))))"
proof (intro conjI allI impI)
  show "fst (get_api_products
         \<lparr>query_category = None, query_minPrice = None, query_sort = None,
           query_fields = Some ''name,price''\<rparr> st)
     = Response 200
         (ProductsJ (length (productsCollection st))
            (map (\<lambda>p. [(''name'', VStr (product_name p)), (''price'', VNum (product_price p))])
               (productsCollection st)))"
    by (simp add: get_api_products_def Let_def fieldList_name_price matches_all project_def
        product_document_def)
next
  fix f
  assume "query_fields q = Some f \<and> f \<noteq> [] \<and> fieldList f = []"
  then show "status (fst (get_api_products q st)) = 400"
    by (simp add: get_api_products_def Let_def)
next
  fix f
  assume "query_fields q = Some f \<and> f \<noteq> [] \<and> fieldList f = []"
  then show "snd (get_api_products q st) = st"
    by (simp add: get_api_products_def Let_def)
next
  assume "query_fields q = Some []"
  then show "get_api_products q st = get_api_products (q\<lparr>query_fields := None\<rparr>) st"
    by (simp add: get_api_products_def Let_def)
next
  fix f
  assume a: "query_fields q = Some f \<and> f \<noteq> [] \<and> status (fst (get_api_products q st)) = 200"
  then show "\<exists>ds. payload_of (fst (get_api_products q st)) = ProductsJ (length ds) ds
             \<and> (\<forall>d \<in> set ds. (''_id'' \<in> fst ` set d) = (''_id'' \<in> set (fieldList f)))"
    by (auto simp: get_api_products_def Let_def id_in_projection split: if_splits)
qed

theorem list_products_fields_witness:
  "fst (get_api_products
         \<lparr>query_category = None, query_minPrice = None, query_sort = None,
           query_fields = Some ''name,price''\<rparr> sample_store)
     = Response 200
         (ProductsJ 3
            [[(''name'', VStr ''Laptop''), (''price'', VNum (Fin 900))],
             [(''name'', VStr ''Pen''), (''price'', VNum (Fin 2))],
             [(''name'', VStr ''Lamp''), (''price'', VNum (Fin 50))]])
   \<and> fieldList '' , '' = []
   \<and> status (fst (get_api_products
         \<lparr>query_category = None, query_minPrice = None, query_sort = None,
           query_fields = Some '' , ''\<rparr> sample_store)) = 400
   \<and> snd (get_api_products
         \<lparr>query_category = None, query_minPrice = None, query_sort = None,
           query_fields = Some '' , ''\<rparr> sample_store) = sample_store
   \<and> get_api_products
         \<lparr>query_category = None, query_minPrice = None, query_sort = None,
           query_fields = Some []\<rparr> sample_store
     = get_api_products
         \<lparr>query_category = None, query_minPrice = None, query_sort = None,
           query_fields = None\<rparr> sample_store
   \<and> status (fst (get_api_products
         \<lparr>query_category = None, query_minPrice = None, query_sort = None,
           query_fields = Some ''_id, name''\<rparr> sample_store)) = 200
   \<and> (\<exists>ds. payload_of (fst (get_api_products
         \<lparr>query_category = None, query_minPrice = None, query_sort = None,
           query_fields = Some ''_id, name''\<rparr> sample_store)) = ProductsJ (length ds) ds
        \<and> list_all (\<lambda>d. ''_id'' \<in> fst ` set d) ds)"
proof -
  have products: "productsCollection sample_store =
        [\<lparr>product_id = 1, product_name = ''Laptop'', product_price = Fin 900,
          product_category = ''Electronics'', product_createdAt = 10\<rparr>,
         \<lparr>product_id = 2, product_name = ''Pen'', product_price = Fin 2,
          product_category = ''Office'', product_createdAt = 20\<rparr>,
         \<lparr>product_id = 3, product_name = ''Lamp'', product_price = Fin 50,
          product_category = ''Home'', product_createdAt = 30\<rparr>]"
    by (simp add: sample_store_def)
  note inst = list_products_fields [where st = sample_store]
  have one: "fst (get_api_products
         \<lparr>query_category = None, query_minPrice = None, query_sort = None,
           query_fields = Some ''name,price''\<rparr> sample_store)
     = Response 200
         (ProductsJ 3
            [[(''name'', VStr ''Laptop''), (''price'', VNum (Fin 900))],
             [(''name'', VStr ''Pen''), (''price'', VNum (Fin 2))],
             [(''name'', VStr ''Lamp''), (''price'', VNum (Fin 50))]])"
    using inst [THEN conjunct1] by (simp add: products)
  have two: "status (fst (get_api_products
         \<lparr>query_category = None, query_minPrice = None, query_sort = None,
           query_fields = Some '' , ''\<rparr> sample_store)) = 400
   \<and> snd (get_api_products
         \<lparr>query_category = None, query_minPrice = None, query_sort = None,
           query_fields = Some '' , ''\<rparr> sample_store) = sample_store"
    using inst [where q = "\<lparr>query_category = None, query_minPrice = None, query_sort = None,
           query_fields = Some '' , ''\<rparr>"] fieldList_blank
    by simp
  have three: "get_api_products
         \<lparr>query_category = None, query_minPrice = None, query_sort = None,
           query_fields = Some []\<rparr> sample_store
     = get_api_products
         \<lparr>query_category = None, query_minPrice = None, query_sort = None,
           query_fields = None\<rparr> sample_store"
    using inst [where q = "\<lparr>query_category = None, query_minPrice = None, query_sort = None,
           query_fields = Some []\<rparr>"]
    by simp
  have four: "\<exists>ds. payload_of (fst (get_api_products
         \<lparr>query_category = None, query_minPrice = None, query_sort = None,
           query_fields = Some ''_id, name''\<rparr> sample_store)) = ProductsJ (length ds) ds
        \<and> list_all (\<lambda>d. ''_id'' \<in> fst ` set d) ds"
    using inst [where q = "\<lparr>query_category = None, query_minPrice = None, query_sort = None,
           query_fields = Some ''_id, name''\<rparr>"] sample_projected_ok
    by (simp add: fieldList_id_name list_all_iff)
  show ?thesis
    using one two three four fieldList_blank sample_projected_ok by simp
qed

text \<open>
  The claim as stated fails at \<^verbatim>\<open>fields=\<close>: the list of the empty string is empty,
  and the answer is 200.
\<close>

theorem list_products_fields_counterexample:
  "fieldList [] = []
   \<and> status (fst (get_api_products
        \<lparr>query_category = None, query_minPrice = None, query_sort = None,
          query_fields = Some []\<rparr> sample_store)) \<noteq> 400"
  by (simp add: fieldList_empty get_api_products_def Let_def)

section \<open>Creating, fetching and deleting an item\<close>

lemma trim_Nil: "trim [] = []"
  by (simp add: trim_def)

lemma findOne_inserted:
  "key d \<notin> key ` set ds \<Longrightarrow> findOne key (key d) (ds @ [d]) = Some d"
  by (induction ds) (auto simp: findOne_def)

lemma deleteOne_absent: "oid \<notin> key ` set ds \<Longrightarrow> deleteOne key oid ds = (0, ds)"
  by (induction ds) auto

lemma deleteOne_present:
  "distinct (map key ds) \<Longrightarrow> x \<in> set ds \<Longrightarrow> deleteOne key (key x) ds = (1, remove1 x ds)"
proof (induction ds)
  case Nil
  then show ?case by simp
next
  case (Cons d ds)
  show ?case
  proof (cases "d = x")
    case True
    then show ?thesis by simp
  next
    case False
    with Cons.prems have "x \<in> set ds" and "key d \<noteq> key x"
      by auto
    with Cons False show ?thesis by simp
  qed
qed

lemma key_removed:
  "distinct (map key ds) \<Longrightarrow> x \<in> set ds \<Longrightarrow> key x \<notin> key ` set (remove1 x ds)"
proof (induction ds)
  case Nil
  then show ?case by simp
next
  case (Cons d ds)
  show ?case
  proof (cases "d = x")
    case True
    with Cons.prems show ?thesis by simp
  next
    case False
    with Cons.prems have "x \<in> set ds" and "key d \<notin> key ` set ds"
      by auto
    then have "key x \<noteq> key d"
      by (metis imageI)
    with Cons False \<open>x \<in> set ds\<close> show ?thesis by simp
  qed
qed

lemma post_item_created:
  assumes "b ''name'' = Some (JStr n)" and "b ''description'' = Some (JStr d)"
    and "trim n \<noteq> []" and "trim d \<noteq> []"
    and "oid \<notin> item_id ` set (itemsCollection st)"
  shows "post_api_items fmt now_created now_updated oid b st =
      (Response 201 (CreatedJ ''Item created'' oid),
       access Items InsertOne (st\<lparr>itemsCollection := itemsCollection st @
         [\<lparr>item_id = oid, item_name = trim n, item_description = trim d,
           item_createdAt = now_created, item_updatedAt = now_updated\<rparr>]\<rparr>))"
proof -
  from assms(3,4) have "n \<noteq> []" and "d \<noteq> []"
    using trim_Nil by auto
  moreover have "insertOne item_id
      \<lparr>item_id = oid, item_name = trim n, item_description = trim d,
        item_createdAt = now_created, item_updatedAt = now_updated\<rparr> (itemsCollection st)
    = Inr (itemsCollection st @
        [\<lparr>item_id = oid, item_name = trim n, item_description = trim d,
          item_createdAt = now_created, item_updatedAt = now_updated\<rparr>])"
    using assms(5) by (simp add: insertOne_fresh)
  ultimately show ?thesis
    using assms(1-4) by (simp add: post_api_items_def Let_def trimmed_JStr)
qed

lemma get_item_inserted:
  assumes "item_id x \<notin> item_id ` set xs" and "itemsCollection st = xs @ [x]"
  shows "get_api_items_id (toHexString (item_id x)) st
    = (Response 200 (ItemJ x), access Items FindOne st)"
  using findOne_inserted [OF assms(1)] assms(2)
  by (simp add: get_api_items_id_def isValid_toHexString ObjectId_new_toHexString)

text \<open>
  Claim C7, as the code has it. For a body whose name and description are strings that
  are non-empty after trimming, and a generated identifier that is unused,
  \<^verbatim>\<open>POST /api/items\<close> answers 201 with the identifier, and \<^verbatim>\<open>GET /api/items/:id\<close> on
  the text of that identifier then answers 200 with the trimmed name and description,
  the first reading of the clock as creation timestamp and the second as update
  timestamp.
\<close>

theorem create_item_then_fetch:
  assumes "b ''name'' = Some (JStr n)" and "b ''description'' = Some (JStr d)"
    and "trim n \<noteq> []" and "trim d \<noteq> []"
    and "oid \<notin> item_id ` set (itemsCollection st)"
  shows "fst (post_api_items fmt now_created now_updated oid b st) = Response 201 (CreatedJ ''Item created'' oid)
    \<and> fst (get_api_items_id (toHexString oid) (snd (post_api_items fmt now_created now_updated oid b st)))
      = Response 200 (ItemJ \<lparr>item_id = oid, item_name = trim n, item_description = trim d,
            item_createdAt = now_created, item_updatedAt = now_updated\<rparr>)"
proof -
  let ?x = "\<lparr>item_id = oid, item_name = trim n, item_description = trim d,
            item_createdAt = now_created, item_updatedAt = now_updated\<rparr>"
  let ?st = "access Items InsertOne (st\<lparr>itemsCollection := itemsCollection st @ [?x]\<rparr>)"
  have post: "post_api_items fmt now_created now_updated oid b st =
      (Response 201 (CreatedJ ''Item created'' oid), ?st)"
    using assms by (rule post_item_created)
  have "get_api_items_id (toHexString (item_id ?x)) ?st
      = (Response 200 (ItemJ ?x), access Items FindOne ?st)"
    using assms(5) by (intro get_item_inserted [where xs = "itemsCollection st"])
      (simp_all add: access_def)
  then show ?thesis by (simp add: post)
qed

theorem create_item_then_fetch_witness:
  "[''name'' \<mapsto> JStr '' Box '', ''description'' \<mapsto> JStr ''A box''] ''name'' = Some (JStr '' Box '')
   \<and> [''name'' \<mapsto> JStr '' Box '', ''description'' \<mapsto> JStr ''A box''] ''description''
       = Some (JStr ''A box'')
   \<and> trim '' Box '' \<noteq> [] \<and> trim ''A box'' \<noteq> []
   \<and> 8 \<notin> item_id ` set (itemsCollection sample_store)
   \<and> fst (post_api_items (\<lambda>n. ''0'') 1000 1000 8
          [''name'' \<mapsto> JStr '' Box '', ''description'' \<mapsto> JStr ''A box''] sample_store)
     = Response 201 (CreatedJ ''Item created'' 8)
   \<and> fst (get_api_items_id (toHexString 8)
          (snd (post_api_items (\<lambda>n. ''0'') 1000 1000 8
             [''name'' \<mapsto> JStr '' Box '', ''description'' \<mapsto> JStr ''A box''] sample_store)))
     = Response 200 (ItemJ \<lparr>item_id = 8, item_name = ''Box'', item_description = ''A box'',
            item_createdAt = 1000, item_updatedAt = 1000\<rparr>)"
proof -
  have trims: "trim '' Box '' = ''Box''" "trim ''A box'' = ''A box''"
    by (simp_all add: trim_def is_space_def code_unit_def)
  have fresh: "8 \<notin> item_id ` set (itemsCollection sample_store)"
    by (simp add: sample_store_def)
  show ?thesis
    using create_item_then_fetch [where n = "'' Box ''" and d = "''A box''" and oid = 8
        and st = sample_store and fmt = "\<lambda>n. ''0''" and now_created = 1000
        and now_updated = 1000
        and b = "[''name'' \<mapsto> JStr '' Box '', ''description'' \<mapsto> JStr ''A box'']"]
      fresh
    by (simp add: trims)
qed

lemma trim_Box: "trim ''Box'' = ''Box''" "trim ''A box'' = ''A box''"
  by (simp_all add: trim_def is_space_def code_unit_def)

text \<open>
  The two timestamps are two readings of the clock: when it advances between them,
  the item fetched after creation has an update timestamp later than its creation
  timestamp.
\<close>

theorem create_item_then_fetch_counterexample:
  "fst (post_api_items (\<lambda>n. ''0'') 1000 1001 8
          [''name'' \<mapsto> JStr ''Box'', ''description'' \<mapsto> JStr ''A box''] empty_store)
     = Response 201 (CreatedJ ''Item created'' 8)
   \<and> fst (get_api_items_id (toHexString 8)
          (snd (post_api_items (\<lambda>n. ''0'') 1000 1001 8
             [''name'' \<mapsto> JStr ''Box'', ''description'' \<mapsto> JStr ''A box''] empty_store)))
     = Response 200 (ItemJ \<lparr>item_id = 8, item_name = ''Box'', item_description = ''A box'',
            item_createdAt = 1000, item_updatedAt = 1001\<rparr>)
   \<and> item_createdAt \<lparr>item_id = 8, item_name = ''Box'', item_description = ''A box'',
            item_createdAt = 1000, item_updatedAt = 1001\<rparr>
     \<noteq> item_updatedAt \<lparr>item_id = 8, item_name = ''Box'', item_description = ''A box'',
            item_createdAt = 1000, item_updatedAt = 1001\<rparr>"
proof -
  let ?b = "[''name'' \<mapsto> JStr ''Box'', ''description'' \<mapsto> JStr ''A box'']"
  let ?x = "\<lparr>item_id = 8, item_name = ''Box'', item_description = ''A box'',
            item_createdAt = 1000, item_updatedAt = 1001\<rparr>"
  let ?st = "access Items InsertOne (empty_store\<lparr>itemsCollection := [?x]\<rparr>)"
  have post: "post_api_items (\<lambda>n. ''0'') 1000 1001 8 ?b empty_store =
      (Response 201 (CreatedJ ''Item created'' 8), ?st)"
    using post_item_created [where n = "''Box''" and d = "''A box''" and oid = 8
      and st = empty_store and fmt = "\<lambda>n. ''0''" and now_created = 1000 and now_updated = 1001 and b = ?b]
    by (simp add: trim_Box empty_store_def)
  have "get_api_items_id (toHexString (item_id ?x)) ?st
      = (Response 200 (ItemJ ?x), access Items FindOne ?st)"
    by (intro get_item_inserted [where xs = "[]"]) (simp_all add: access_def)
  then show ?thesis by (simp add: post)
qed

text \<open>
  Claim C8. In a store whose keys are unique, \<^verbatim>\<open>DELETE /api/items/:id\<close> on a valid
  identifier string that denotes a stored item answers 204 with an empty body and
  removes that item, after which no item has its key; the same request again answers
  404.
\<close>

theorem delete_item_twice:
  assumes "unique_ids st" and "x \<in> set (itemsCollection st)"
    and "ObjectId_isValid id'" and "ObjectId_new id' = item_id x"
  shows "fst (delete_api_items_id id' st) = Response 204 Empty
    \<and> itemsCollection (snd (delete_api_items_id id' st)) = remove1 x (itemsCollection st)
    \<and> item_id x \<notin> item_id ` set (itemsCollection (snd (delete_api_items_id id' st)))
    \<and> fst (delete_api_items_id id' (snd (delete_api_items_id id' st)))
        = Response 404 (ErrorJ ''Item not found'')"
proof -
  from assms(1) have dist: "distinct (map item_id (itemsCollection st))"
    by (simp add: unique_ids_def)
  have first: "delete_api_items_id id' st =
      (Response 204 Empty,
       access Items DeleteOne (st\<lparr>itemsCollection := remove1 x (itemsCollection st)\<rparr>))"
    using assms(3,4) deleteOne_present [OF dist assms(2)]
    by (simp add: delete_api_items_id_def)
  have gone: "item_id x \<notin> item_id ` set (remove1 x (itemsCollection st))"
    using dist assms(2) by (rule key_removed)
  have second: "fst (delete_api_items_id id'
        (access Items DeleteOne (st\<lparr>itemsCollection := remove1 x (itemsCollection st)\<rparr>)))
      = Response 404 (ErrorJ ''Item not found'')"
    using assms(3,4) deleteOne_absent [OF gone]
    by (simp add: delete_api_items_id_def access_def)
  show ?thesis
    using gone second by (simp add: first access_def)
qed

lemma sample_unique: "unique_ids sample_store"
  by (simp add: unique_ids_def sample_store_def)

lemma sample_id_valid: "ObjectId_isValid ''000000000000000000000007''"
  by (simp add: ObjectId_isValid_def is_hex_def is_digit_def code_unit_def)

lemma sample_id_value: "ObjectId_new ''000000000000000000000007'' = 7"
  by (simp add: ObjectId_new_def radix_val_def hex_val_def is_digit_def code_unit_def)

theorem delete_item_twice_witness:
  "unique_ids sample_store
   \<and> \<lparr>item_id = 7, item_name = ''Box'', item_description = ''A box'',
        item_createdAt = 40, item_updatedAt = 40\<rparr> \<in> set (itemsCollection sample_store)
   \<and> ObjectId_isValid ''000000000000000000000007''
   \<and> ObjectId_new ''000000000000000000000007'' = 7
   \<and> fst (delete_api_items_id ''000000000000000000000007'' sample_store) = Response 204 Empty
   \<and> itemsCollection (snd (delete_api_items_id ''000000000000000000000007'' sample_store)) = []
   \<and> fst (delete_api_items_id ''000000000000000000000007''
        (snd (delete_api_items_id ''000000000000000000000007'' sample_store)))
      = Response 404 (ErrorJ ''Item not found'')"
proof -
  have member: "\<lparr>item_id = 7, item_name = ''Box'', item_description = ''A box'',
        item_createdAt = 40, item_updatedAt = 40\<rparr> \<in> set (itemsCollection sample_store)"
    and rest: "remove1 \<lparr>item_id = 7, item_name = ''Box'', item_description = ''A box'',
        item_createdAt = 40, item_updatedAt = 40\<rparr> (itemsCollection sample_store) = []"
    by (simp_all add: sample_store_def)
  show ?thesis
    using delete_item_twice [where st = sample_store and id' = "''000000000000000000000007''"
        and x = "\<lparr>item_id = 7, item_name = ''Box'', item_description = ''A box'',
          item_createdAt = 40, item_updatedAt = 40\<rparr>"]
      sample_unique member rest sample_id_valid sample_id_value
    by simp
qed

section \<open>Blank text fields\<close>

lemma trim_blank: "trim ''   '' = []" "trim ''Home'' = ''Home''"
  by (simp_all add: trim_def is_space_def code_unit_def)

lemma sample_product_id: "ObjectId_isValid ''000000000000000000000002''"
  "ObjectId_new ''000000000000000000000002'' = 2"
  by (simp_all add: ObjectId_isValid_def is_hex_def is_digit_def code_unit_def
      ObjectId_new_def radix_val_def hex_val_def)

text \<open>
  Claim C2 at two requests. \<^verbatim>\<open>POST /api/products\<close> with a name of three spaces
  answers 201 and stores a product whose name is empty; \<^verbatim>\<open>PUT /api/products/:id\<close>
  with the empty string as name answers 200 and empties the name of the stored
  product.
\<close>

theorem product_blank_name_persisted:
  "post_api_products fmt 99 4
      [''name'' \<mapsto> JStr ''   '', ''price'' \<mapsto> JNum (Fin 5), ''category'' \<mapsto> JStr ''Home'']
      empty_store
    = (Response 201 (CreatedJ ''Product created'' 4),
       \<lparr>productsCollection =
          [\<lparr>product_id = 4, product_name = [], product_price = Fin 5,
            product_category = ''Home'', product_createdAt = 99\<rparr>],
        itemsCollection = [], accesses = [(Products, InsertOne)]\<rparr>)
   \<and> put_api_products_id fmt ''000000000000000000000002'' [''name'' \<mapsto> JStr []] sample_store
    = (Response 200 (MessageJ ''Product updated''),
       \<lparr>productsCollection =
          [\<lparr>product_id = 1, product_name = ''Laptop'', product_price = Fin 900,
            product_category = ''Electronics'', product_createdAt = 10\<rparr>,
           \<lparr>product_id = 2, product_name = [], product_price = Fin 2,
            product_category = ''Office'', product_createdAt = 20\<rparr>,
           \<lparr>product_id = 3, product_name = ''Lamp'', product_price = Fin 50,
            product_category = ''Home'', product_createdAt = 30\<rparr>],
        itemsCollection =
          [\<lparr>item_id = 7, item_name = ''Box'', item_description = ''A box'',
            item_createdAt = 40, item_updatedAt = 40\<rparr>],
        accesses = [(Products, UpdateOne)]\<rparr>)"
proof
  show "post_api_products fmt 99 4
      [''name'' \<mapsto> JStr ''   '', ''price'' \<mapsto> JNum (Fin 5), ''category'' \<mapsto> JStr ''Home'']
      empty_store
    = (Response 201 (CreatedJ ''Product created'' 4),
       \<lparr>productsCollection =
          [\<lparr>product_id = 4, product_name = [], product_price = Fin 5,
            product_category = ''Home'', product_createdAt = 99\<rparr>],
        itemsCollection = [], accesses = [(Products, InsertOne)]\<rparr>)"
    by (simp add: post_api_products_def trimmed_JStr trim_blank insertOne_def empty_store_def
        access_def)
next
  show "put_api_products_id fmt ''000000000000000000000002'' [''name'' \<mapsto> JStr []] sample_store
    = (Response 200 (MessageJ ''Product updated''),
       \<lparr>productsCollection =
          [\<lparr>product_id = 1, product_name = ''Laptop'', product_price = Fin 900,
            product_category = ''Electronics'', product_createdAt = 10\<rparr>,
           \<lparr>product_id = 2, product_name = [], product_price = Fin 2,
            product_category = ''Office'', product_createdAt = 20\<rparr>,
           \<lparr>product_id = 3, product_name = ''Lamp'', product_price = Fin 50,
            product_category = ''Home'', product_createdAt = 30\<rparr>],
        itemsCollection =
          [\<lparr>item_id = 7, item_name = ''Box'', item_description = ''A box'',
            item_createdAt = 40, item_updatedAt = 40\<rparr>],
        accesses = [(Products, UpdateOne)]\<rparr>)"
    by (simp add: put_api_products_id_def sample_product_id trimmed_JStr trim_Nil
        sample_store_def access_def set_product_def)
qed

theorem product_blank_name_persisted_witness:
  "post_api_products (\<lambda>n. ''0'') 99 4
      [''name'' \<mapsto> JStr ''   '', ''price'' \<mapsto> JNum (Fin 5), ''category'' \<mapsto> JStr ''Home'']
      empty_store
    = (Response 201 (CreatedJ ''Product created'' 4),
       \<lparr>productsCollection =
          [\<lparr>product_id = 4, product_name = [], product_price = Fin 5,
            product_category = ''Home'', product_createdAt = 99\<rparr>],
        itemsCollection = [], accesses = [(Products, InsertOne)]\<rparr>)
   \<and> put_api_products_id (\<lambda>n. ''0'') ''000000000000000000000002'' [''name'' \<mapsto> JStr []] sample_store
    = (Response 200 (MessageJ ''Product updated''),
       \<lparr>productsCollection =
          [\<lparr>product_id = 1, product_name = ''Laptop'', product_price = Fin 900,
            product_category = ''Electronics'', product_createdAt = 10\<rparr>,
           \<lparr>product_id = 2, product_name = [], product_price = Fin 2,
            product_category = ''Office'', product_createdAt = 20\<rparr>,
           \<lparr>product_id = 3, product_name = ''Lamp'', product_price = Fin 50,
            product_category = ''Home'', product_createdAt = 30\<rparr>],
        itemsCollection =
          [\<lparr>item_id = 7, item_name = ''Box'', item_description = ''A box'',
            item_createdAt = 40, item_updatedAt = 40\<rparr>],
        accesses = [(Products, UpdateOne)]\<rparr>)"
  using product_blank_name_persisted [where fmt = "\<lambda>n. ''0''"] by simp

text \<open>
  The three writes on items reject a name or a description that is empty after
  trimming, before any store operation.
\<close>

lemma item_writes_reject_blank_text:
  assumes "b ''name'' = Some (JStr n)" and "b ''description'' = Some (JStr d)"
    and "trim n = [] \<or> trim d = []"
  shows "post_api_items fmt now_created now_updated oid b st
      = (Response 400 (ErrorJ (if n = [] \<or> d = []
            then ''Missing required fields: name, description''
            else ''name and description cannot be empty'')), st)"
    and "status (fst (put_api_items_id fmt now id' b st)) = 400"
    and "snd (put_api_items_id fmt now id' b st) = st"
    and "status (fst (patch_api_items_id fmt now id' b st)) = 400"
    and "snd (patch_api_items_id fmt now id' b st) = st"
  using assms
  by (auto simp: post_api_items_def put_api_items_id_def patch_api_items_id_def Let_def
      trimmed_JStr)

section \<open>Unique keys are preserved\<close>

lemma keys_updateOne:
  "(\<And>d. key (f d) = key d) \<Longrightarrow> map key (snd (updateOne key oid f ds)) = map key ds"
  by (induction ds) (auto split: prod.splits)

lemma keys_deleteOne: "set (snd (deleteOne key oid ds)) \<subseteq> set ds"
  by (induction ds) (auto split: prod.splits)

lemma distinct_deleteOne:
  "distinct (map key ds) \<Longrightarrow> distinct (map key (snd (deleteOne key oid ds)))"
proof (induction ds)
  case Nil
  then show ?case by simp
next
  case (Cons d ds)
  then show ?case
    using keys_deleteOne [of key oid ds] by (auto split: prod.splits)
qed

lemma distinct_insertOne:
  "distinct (map key ds) \<Longrightarrow> insertOne key d ds = Inr ds' \<Longrightarrow> distinct (map key ds')"
  by (auto simp: insertOne_def split: if_splits)

lemma item_id_set_item: "item_id (set_item u x) = item_id x"
  by (simp add: set_item_def)

lemma product_id_set_product: "product_id (set_product u p) = product_id p"
  by (simp add: set_product_def)

lemma unique_ids_access: "unique_ids (access c op st) = unique_ids st"
  by (simp add: unique_ids_def access_def)

lemma unique_ids_updated_products:
  "unique_ids (st\<lparr>productsCollection :=
      snd (updateOne product_id oid (set_product u) (productsCollection st))\<rparr>) = unique_ids st"
  by (simp add: unique_ids_def keys_updateOne product_id_set_product)

lemma unique_ids_updated_items:
  "unique_ids (st\<lparr>itemsCollection :=
      snd (updateOne item_id oid (set_item u) (itemsCollection st))\<rparr>) = unique_ids st"
  by (simp add: unique_ids_def keys_updateOne item_id_set_item)

lemma unique_ids_deleted_products:
  "unique_ids st \<Longrightarrow> unique_ids (st\<lparr>productsCollection :=
      snd (deleteOne product_id oid (productsCollection st))\<rparr>)"
  by (simp add: unique_ids_def distinct_deleteOne)

lemma unique_ids_deleted_items:
  "unique_ids st \<Longrightarrow> unique_ids (st\<lparr>itemsCollection :=
      snd (deleteOne item_id oid (itemsCollection st))\<rparr>)"
  by (simp add: unique_ids_def distinct_deleteOne)

lemma unique_ids_preserved:
  assumes "unique_ids st"
  shows "unique_ids (snd (get_api_products q st))"
    and "unique_ids (snd (get_api_products_id id' st))"
    and "unique_ids (snd (post_api_products fmt now oid b st))"
    and "unique_ids (snd (put_api_products_id fmt id' b st))"
    and "unique_ids (snd (delete_api_products_id id' st))"
    and "unique_ids (snd (get_api_items st))"
    and "unique_ids (snd (get_api_items_id id' st))"
    and "unique_ids (snd (post_api_items fmt now_created now_updated oid b st))"
    and "unique_ids (snd (put_api_items_id fmt now id' b st))"
    and "unique_ids (snd (patch_api_items_id fmt now id' b st))"
    and "unique_ids (snd (delete_api_items_id id' st))"
proof -
  show "unique_ids (snd (get_api_products q st))"
    using assms by (simp add: get_api_products_def Let_def unique_ids_access)
  show "unique_ids (snd (get_api_products_id id' st))"
    using assms by (simp add: get_api_products_id_def unique_ids_access split: option.splits)
  show "unique_ids (snd (get_api_items st))"
    using assms by (simp add: get_api_items_def Let_def unique_ids_access)
  show "unique_ids (snd (get_api_items_id id' st))"
    using assms by (simp add: get_api_items_id_def unique_ids_access split: option.splits)
  show "unique_ids (snd (post_api_products fmt now oid b st))"
    using assms
    by (auto simp: post_api_products_def unique_ids_def access_def insertOne_def
        split: option.splits)
  show "unique_ids (snd (post_api_items fmt now_created now_updated oid b st))"
    using assms
    by (auto simp: post_api_items_def Let_def unique_ids_def access_def insertOne_def
        split: option.splits)
  show "unique_ids (snd (put_api_products_id fmt id' b st))"
    using assms
    by (simp add: put_api_products_id_def split_beta unique_ids_access
        unique_ids_updated_products split: option.splits)
  show "unique_ids (snd (put_api_items_id fmt now id' b st))"
    using assms
    by (simp add: put_api_items_id_def Let_def split_beta unique_ids_access
        unique_ids_updated_items split: option.splits)
  show "unique_ids (snd (patch_api_items_id fmt now id' b st))"
    using assms
    by (simp add: patch_api_items_id_def split_beta unique_ids_access
        unique_ids_updated_items split: option.splits)
  show "unique_ids (snd (delete_api_products_id id' st))"
    using assms
    by (simp add: delete_api_products_id_def split_beta unique_ids_access
        unique_ids_deleted_products)
  show "unique_ids (snd (delete_api_items_id id' st))"
    using assms
    by (simp add: delete_api_items_id_def split_beta unique_ids_access
        unique_ids_deleted_items)
qed

end
